theory Spec2Isabelle
  imports Main
begin

section \<open>The reverse operator of paddle/fluid/operators/reverse\_op.cc\<close>

subsection \<open>Data model\<close>

text \<open>
  Modelled from the spec: the variable kinds of \<open>framework::proto::VarType\<close>, whose
  declaration is outside \<open>reverse_op.cc\<close>. The operator distinguishes the tensor list
  (\<open>LOD_TENSOR_ARRAY\<close>) from every other kind; the dense tensor is \<open>LOD_TENSOR\<close>.
\<close>

datatype VarType = LOD_TENSOR | SELECTED_ROWS | LOD_TENSOR_ARRAY

text \<open>
  Modelled from the spec: the element dtypes of the kernel registrations
  (\<open>int, uint8_t, int64_t, bool, float, double\<close>).
\<close>

datatype DataType = INT32 | UINT8 | INT64 | BOOL | FP32 | FP64

text \<open>
  A \<open>DDim\<close> is the sequence of extents of a variable; its \<open>size()\<close> is the rank.
  At graph-build time an extent may be the symbolic \<open>-1\<close>, hence \<open>int\<close>.
\<close>

type_synonym DDim = "int list"

record VarDesc =
  var_type :: VarType
  data_type :: DataType
  dims :: DDim

text \<open>
  The errors raised by the enforce macros, with the values the diagnostic formats:
  \<open>InvalidArgument\<close> carries the formatted arguments, \<open>OutOfRange\<close> the violating
  pair. Modelled from the spec: the macro \<open>OP_INOUT_CHECK\<close> is defined outside
  \<open>reverse_op.cc\<close>; it fails with the missing-binding error, here \<open>NotFound\<close> with the
  role and the name the macro is given.
\<close>

datatype error =
    NotFound string string
  | InvalidArgument "int list"
  | OutOfRange int int

text \<open>
  Modelled from the spec: the graph-build context (\<open>framework::InferShapeContext\<close>):
  presence of named bindings, variant kind and shape of a binding, the \<open>axis\<close>
  attribute (a \<open>std::vector<int>\<close>) and the runtime flag.
\<close>

record InferShapeContext =
  inputs :: "string \<rightharpoonup> VarDesc"
  outputs :: "string \<rightharpoonup> VarDesc"
  axis_attr :: "int list"
  IsRuntime :: bool

definition HasInput :: "InferShapeContext \<Rightarrow> string \<Rightarrow> bool" where
  "HasInput ctx name = (inputs ctx name \<noteq> None)"

definition HasOutput :: "InferShapeContext \<Rightarrow> string \<Rightarrow> bool" where
  "HasOutput ctx name = (outputs ctx name \<noteq> None)"

definition SetOutputDim :: "InferShapeContext \<Rightarrow> string \<Rightarrow> DDim \<Rightarrow> InferShapeContext" where
  "SetOutputDim ctx name d =
     ctx\<lparr>outputs := (outputs ctx)(name := map_option (\<lambda>v. v\<lparr>dims := d\<rparr>) (outputs ctx name))\<rparr>"

subsection \<open>ReverseOp::InferShape\<close>

text \<open>
  The loop \<open>for (int a : axis)\<close> with its two enforces; \<open>None\<close> when every entry
  passes, otherwise the error of the first entry that fails.
\<close>

fun check_axis :: "int \<Rightarrow> int list \<Rightarrow> error option" where
  "check_axis rank [] = None"
| "check_axis rank (a # as) =
     (if \<not> a < rank then Some (OutOfRange a rank)
      else if \<not> a \<ge> - rank then Some (OutOfRange a (- rank))
      else check_axis rank as)"

definition InferShape :: "InferShapeContext \<Rightarrow> error + InferShapeContext" where
  "InferShape ctx =
     (if \<not> HasInput ctx ''X'' then Inl (NotFound ''Input'' ''X'')
      else if \<not> HasOutput ctx ''Out'' then Inl (NotFound ''Output'' ''Out'')
      else
        (case inputs ctx ''X'' of
           None \<Rightarrow> Inl (NotFound ''Input'' ''X'')
         | Some x \<Rightarrow>
            (let x_var_type = var_type x; axis = axis_attr ctx in
             if x_var_type = LOD_TENSOR_ARRAY then
               (if length axis \<noteq> 1 then Inl (InvalidArgument [int (length axis)])
                else if axis ! 0 \<noteq> 0 then Inl (InvalidArgument [axis ! 0])
                else if \<not> IsRuntime ctx then Inr (SetOutputDim ctx ''Out'' (dims x))
                else Inr ctx)
             else
               (let x_dims = dims x in
                if axis = [] then Inl (InvalidArgument [])
                else
                  (case check_axis (int (length x_dims)) axis of
                     Some e \<Rightarrow> Inl e
                   | None \<Rightarrow> Inr (SetOutputDim ctx ''Out'' x_dims))))))"

subsection \<open>ReverseOpVarTypeInference\<close>

text \<open>
  Modelled from the spec: the type-inference context
  (\<open>framework::InferVarTypeContext\<close>): get and set of the variant kind and of the
  dtype of a named binding. An accessor on a name that is not bound fails (\<open>None\<close>).
\<close>

record InferVarTypeContext =
  vt_inputs :: "string \<rightharpoonup> VarDesc"
  vt_outputs :: "string \<rightharpoonup> VarDesc"

definition GetInputType :: "InferVarTypeContext \<Rightarrow> string \<Rightarrow> VarType option" where
  "GetInputType ctx name = map_option var_type (vt_inputs ctx name)"

definition GetInputDataType :: "InferVarTypeContext \<Rightarrow> string \<Rightarrow> DataType option" where
  "GetInputDataType ctx name = map_option data_type (vt_inputs ctx name)"

definition SetOutputType ::
  "InferVarTypeContext \<Rightarrow> string \<Rightarrow> VarType \<Rightarrow> InferVarTypeContext option" where
  "SetOutputType ctx name t =
     (case vt_outputs ctx name of
        None \<Rightarrow> None
      | Some v \<Rightarrow> Some (ctx\<lparr>vt_outputs := (vt_outputs ctx)(name \<mapsto> v\<lparr>var_type := t\<rparr>)\<rparr>))"

definition SetOutputDataType ::
  "InferVarTypeContext \<Rightarrow> string \<Rightarrow> DataType \<Rightarrow> InferVarTypeContext option" where
  "SetOutputDataType ctx name t =
     (case vt_outputs ctx name of
        None \<Rightarrow> None
      | Some v \<Rightarrow> Some (ctx\<lparr>vt_outputs := (vt_outputs ctx)(name \<mapsto> v\<lparr>data_type := t\<rparr>)\<rparr>))"

text \<open>The two statements of \<open>operator()\<close>, in the order of the source.\<close>

definition ReverseOpVarTypeInference :: "InferVarTypeContext \<Rightarrow> InferVarTypeContext option" where
  "ReverseOpVarTypeInference ctx =
     (case GetInputType ctx ''X'' of
        None \<Rightarrow> None
      | Some t \<Rightarrow>
         (case SetOutputType ctx ''Out'' t of
            None \<Rightarrow> None
          | Some ctx1 \<Rightarrow>
             (case GetInputDataType ctx1 ''X'' of
                None \<Rightarrow> None
              | Some dt \<Rightarrow> SetOutputDataType ctx1 ''Out'' dt)))"

subsection \<open>ReverseGradMaker::Apply\<close>

text \<open>
  Modelled from the spec: a graph node as the fluent builder writes it (set-type,
  set-input, set-output, set-attr): its type, the variable names bound to its input and
  output slots, and its attributes (here the integer-list attribute).
\<close>

record OpDesc =
  op_type :: string
  op_inputs :: "string \<rightharpoonup> string list"
  op_outputs :: "string \<rightharpoonup> string list"
  op_attrs :: "string \<rightharpoonup> int list"

text \<open>
  Modelled from the spec: the autodiff context (\<open>framework::SingleGradOpMaker\<close>).
  Its accessors are parameters: \<open>OutputGrad\<close> gives the gradient variables of a forward
  output, \<open>InputGrad\<close> the gradient slots of a forward input, \<open>GetAttr\<close> an attribute
  of the forward operator.
\<close>

record GradOpMaker =
  OutputGrad :: "string \<Rightarrow> string list"
  InputGrad :: "string \<Rightarrow> string list"
  GetAttr :: "string \<Rightarrow> int list"

definition SetType :: "OpDesc \<Rightarrow> string \<Rightarrow> OpDesc" where
  "SetType g t = g\<lparr>op_type := t\<rparr>"

definition SetInput :: "OpDesc \<Rightarrow> string \<Rightarrow> string list \<Rightarrow> OpDesc" where
  "SetInput g name vs = g\<lparr>op_inputs := (op_inputs g)(name \<mapsto> vs)\<rparr>"

definition SetOutput :: "OpDesc \<Rightarrow> string \<Rightarrow> string list \<Rightarrow> OpDesc" where
  "SetOutput g name vs = g\<lparr>op_outputs := (op_outputs g)(name \<mapsto> vs)\<rparr>"

definition SetAttr :: "OpDesc \<Rightarrow> string \<Rightarrow> int list \<Rightarrow> OpDesc" where
  "SetAttr g name v = g\<lparr>op_attrs := (op_attrs g)(name \<mapsto> v)\<rparr>"

definition Apply :: "GradOpMaker \<Rightarrow> OpDesc \<Rightarrow> OpDesc" where
  "Apply this grad_op =
     (let g1 = SetType grad_op ''reverse'';
          g2 = SetInput g1 ''X'' (OutputGrad this ''Out'');
          g3 = SetOutput g2 ''Out'' (InputGrad this ''X'')
      in SetAttr g3 ''axis'' (GetAttr this ''axis''))"

text \<open>
  Modelled from the spec: the single-node driver of \<open>framework::SingleGradOpMaker\<close>,
  which creates one fresh node, hands it to \<open>Apply\<close> and returns it alone.
\<close>

definition empty_op :: OpDesc where
  "empty_op = \<lparr>op_type = [], op_inputs = Map.empty, op_outputs = Map.empty,
               op_attrs = Map.empty\<rparr>"

definition SingleGradOpMaker :: "GradOpMaker \<Rightarrow> OpDesc list" where
  "SingleGradOpMaker this = [Apply this empty_op]"

subsection \<open>The kernel on a dense tensor\<close>

text \<open>
  Modelled from the spec: the dense tensor of the data model, with its extents, its
  per-row length metadata and its flat row-major buffer. A tensor is well typed when
  the buffer holds as many elements as the extents say.
\<close>

record 'a LoDTensor =
  t_dims :: "nat list"
  lod :: "nat list list"
  data :: "'a list"

fun numel :: "nat list \<Rightarrow> nat" where
  "numel [] = 1"
| "numel (d # ds) = d * numel ds"

definition well_typed :: "'a LoDTensor \<Rightarrow> bool" where
  "well_typed x = (length (data x) = numel (t_dims x))"

text \<open>
  Modelled from the spec: the index tuples of a shape, and the correspondence between
  an index tuple and its offset in the row-major buffer.
\<close>

fun in_bounds :: "nat list \<Rightarrow> nat list \<Rightarrow> bool" where
  "in_bounds [] [] = True"
| "in_bounds (d # ds) (i # ix) = (i < d \<and> in_bounds ds ix)"
| "in_bounds _ _ = False"

fun offset_of :: "nat list \<Rightarrow> nat list \<Rightarrow> nat" where
  "offset_of (d # ds) (i # ix) = i * numel ds + offset_of ds ix"
| "offset_of _ _ = 0"

fun index_of :: "nat list \<Rightarrow> nat \<Rightarrow> nat list" where
  "index_of [] j = []"
| "index_of (d # ds) j = (j div numel ds) # index_of ds (j mod numel ds)"

text \<open>
  Modelled from the spec: the kernel \<open>ReverseKernel\<close> of \<open>reverse_op.h\<close>, which is not
  part of \<open>reverse_op.cc\<close>. The set \<open>A\<close> is obtained by normalizing each entry of
  \<open>axis\<close> via \<open>a < 0 ? a + rank : a\<close>; the output at an index equals the input at the
  index obtained by flipping the components in \<open>A\<close>
  (\<open>i'\<^sub>k = extent\<^sub>k - 1 - i\<^sub>k\<close> if \<open>k \<in> A\<close>, else \<open>i\<^sub>k\<close>);
  shape and per-row length metadata are those of the input.
\<close>

definition normalize_axis :: "nat \<Rightarrow> int \<Rightarrow> int" where
  "normalize_axis rank a = (if a < 0 then a + int rank else a)"

definition axis_set :: "nat \<Rightarrow> int list \<Rightarrow> int set" where
  "axis_set rank axis = set (map (normalize_axis rank) axis)"

fun flip_from :: "int set \<Rightarrow> nat \<Rightarrow> nat list \<Rightarrow> nat list \<Rightarrow> nat list" where
  "flip_from A k (d # ds) (i # ix) =
     (if int k \<in> A then d - 1 - i else i) # flip_from A (Suc k) ds ix"
| "flip_from A k _ _ = []"

definition flip :: "int set \<Rightarrow> nat list \<Rightarrow> nat list \<Rightarrow> nat list" where
  "flip A shape ix = flip_from A 0 shape ix"

definition ReverseKernel :: "'a LoDTensor \<Rightarrow> int list \<Rightarrow> 'a LoDTensor" where
  "ReverseKernel x axis =
     (let shape = t_dims x; A = axis_set (length shape) axis in
      x\<lparr>data := map (\<lambda>j. data x ! offset_of shape (flip A shape (index_of shape j)))
                    [0..<numel shape]\<rparr>)"

text \<open>
  Modelled from the spec: the symmetric difference of two axis lists, as an axis list.
\<close>

definition symmetric_difference :: "int list \<Rightarrow> int list \<Rightarrow> int list" where
  "symmetric_difference A B =
     filter (\<lambda>a. a \<notin> set B) A @ filter (\<lambda>b. b \<notin> set A) B"

subsection \<open>Concrete contexts\<close>

text \<open>
  A context with \<open>X\<close> and \<open>Out\<close> bound, \<open>X\<close> of the given kind and shape, used to
  evaluate the validator on concrete inputs.
\<close>

definition example_ctx :: "VarType \<Rightarrow> DDim \<Rightarrow> int list \<Rightarrow> bool \<Rightarrow> InferShapeContext" where
  "example_ctx vt shape ax rt =
     \<lparr>inputs = [''X'' \<mapsto> \<lparr>var_type = vt, data_type = FP32, dims = shape\<rparr>],
      outputs = [''Out'' \<mapsto> \<lparr>var_type = vt, data_type = FP32, dims = []\<rparr>],
      axis_attr = ax, IsRuntime = rt\<rparr>"

text \<open>
  The tensor of Case 2 of the operator's documentation (\<open>ReverseOpMaker::Make\<close>):
  shape \<open>[2, 2, 4]\<close> with contents \<open>1, \<dots>, 16\<close> in row-major order.
\<close>

definition example_tensor :: "int LoDTensor" where
  "example_tensor = \<lparr>t_dims = [2, 2, 4], lod = [],
     data = [1, 2, 3, 4, 5, 6, 7, 8, 9, 10, 11, 12, 13, 14, 15, 16]\<rparr>"

section \<open>Properties\<close>

subsection \<open>The two branches of the validator\<close>

lemma check_axis_None:
  "check_axis rank axis = None \<longleftrightarrow> (\<forall>a\<in>set axis. - rank \<le> a \<and> a < rank)"
  by (induction axis) auto

lemma check_axis_Some:
  "check_axis rank axis = Some e \<Longrightarrow> \<exists>a b. e = OutOfRange a b"
  by (induction axis) (auto split: if_splits)

lemma InferShape_dense:
  assumes "inputs ctx ''X'' = Some x" and "var_type x \<noteq> LOD_TENSOR_ARRAY"
    and "outputs ctx ''Out'' = Some out"
  shows "InferShape ctx =
    (if axis_attr ctx = [] then Inl (InvalidArgument [])
     else case check_axis (int (length (dims x))) (axis_attr ctx) of
            Some e \<Rightarrow> Inl e
          | None \<Rightarrow> Inr (SetOutputDim ctx ''Out'' (dims x)))"
  using assms by (simp add: InferShape_def HasInput_def HasOutput_def Let_def)

lemma InferShape_list:
  assumes "inputs ctx ''X'' = Some x" and "var_type x = LOD_TENSOR_ARRAY"
    and "outputs ctx ''Out'' = Some out"
  shows "InferShape ctx =
    (if length (axis_attr ctx) \<noteq> 1 then Inl (InvalidArgument [int (length (axis_attr ctx))])
     else if axis_attr ctx ! 0 \<noteq> 0 then Inl (InvalidArgument [axis_attr ctx ! 0])
     else if \<not> IsRuntime ctx then Inr (SetOutputDim ctx ''Out'' (dims x))
     else Inr ctx)"
  using assms by (simp add: InferShape_def HasInput_def HasOutput_def Let_def)

subsection \<open>Missing bindings\<close>

text \<open>
  Claim C9. When the input \<open>X\<close> or the output \<open>Out\<close> is not bound, the validator
  fails with the missing-binding error (\<open>NotFound\<close>): for \<open>X\<close> when \<open>X\<close> is missing,
  otherwise for \<open>Out\<close>. The check comes before any look at the axis attribute or at
  the variant kind: replacing the attribute, or the kind of \<open>X\<close>, by any other value
  leaves the result the same.
\<close>

theorem InferShape_missing_binding:
  assumes "inputs ctx ''X'' = None \<or> outputs ctx ''Out'' = None"
  shows "InferShape ctx =
           (if inputs ctx ''X'' = None then Inl (NotFound ''Input'' ''X'')
            else Inl (NotFound ''Output'' ''Out''))
       \<and> (\<forall>ax. InferShape (ctx\<lparr>axis_attr := ax\<rparr>) = InferShape ctx)
       \<and> (\<forall>vt. InferShape (ctx\<lparr>inputs := (inputs ctx)(''X'' :=
               map_option (\<lambda>v. v\<lparr>var_type := vt\<rparr>) (inputs ctx ''X''))\<rparr>) = InferShape ctx)"
  using assms by (auto simp: InferShape_def HasInput_def HasOutput_def)

text \<open>
  The theorem at a context without \<open>Out\<close> (and an axis out of range) and at a context without \<open>X\<close>.
\<close>

theorem InferShape_missing_binding_witness:
  "InferShape ((example_ctx LOD_TENSOR [2, 3] [7] False)\<lparr>outputs := Map.empty\<rparr>)
     = Inl (NotFound ''Output'' ''Out'')
   \<and> InferShape ((example_ctx LOD_TENSOR_ARRAY [2, 3] [] False)\<lparr>inputs := Map.empty\<rparr>)
     = Inl (NotFound ''Input'' ''X'')"
  using InferShape_missing_binding
      [of "(example_ctx LOD_TENSOR [2, 3] [7] False)\<lparr>outputs := Map.empty\<rparr>"]
    InferShape_missing_binding
      [of "(example_ctx LOD_TENSOR_ARRAY [2, 3] [] False)\<lparr>inputs := Map.empty\<rparr>"]
  by (simp add: example_ctx_def)

subsection \<open>The axis attribute of a dense tensor\<close>

text \<open>
  Claim C1. For a dense tensor \<open>X\<close> of rank \<open>r\<close> (with \<open>X\<close> and \<open>Out\<close> bound), the
  validator accepts if and only if the axis attribute is non-empty and every entry
  \<open>a\<close> satisfies \<open>-r \<le> a < r\<close>; an empty attribute fails with \<open>InvalidArgument\<close>; an
  entry with \<open>a \<ge> r\<close> or \<open>a < -r\<close> makes it fail with \<open>OutOfRange\<close>; a duplicated entry
  within range is accepted.
\<close>

theorem InferShape_dense_axis:
  assumes "inputs ctx ''X'' = Some x" and "var_type x = LOD_TENSOR"
    and "outputs ctx ''Out'' = Some out"
  shows "((\<exists>ctx'. InferShape ctx = Inr ctx') \<longleftrightarrow>
            (axis_attr ctx \<noteq> [] \<and>
             (\<forall>a\<in>set (axis_attr ctx). - int (length (dims x)) \<le> a \<and> a < int (length (dims x)))))
       \<and> (axis_attr ctx = [] \<longrightarrow> InferShape ctx = Inl (InvalidArgument []))
       \<and> ((\<exists>a\<in>set (axis_attr ctx). a \<ge> int (length (dims x)) \<or> a < - int (length (dims x)))
            \<longrightarrow> (\<exists>a b. InferShape ctx = Inl (OutOfRange a b)))
       \<and> (\<forall>a. - int (length (dims x)) \<le> a \<and> a < int (length (dims x)) \<longrightarrow>
            (\<exists>ctx'. InferShape (ctx\<lparr>axis_attr := [a, a]\<rparr>) = Inr ctx'))"
proof -
  let ?r = "int (length (dims x))"
  have nl: "var_type x \<noteq> LOD_TENSOR_ARRAY" using assms(2) by simp
  note eq = InferShape_dense [OF assms(1) nl assms(3)]
  have c1: "(\<exists>ctx'. InferShape ctx = Inr ctx') \<longleftrightarrow>
            (axis_attr ctx \<noteq> [] \<and> (\<forall>a\<in>set (axis_attr ctx). - ?r \<le> a \<and> a < ?r))"
  proof (cases "check_axis ?r (axis_attr ctx)")
    case None
    then show ?thesis using eq check_axis_None [of ?r "axis_attr ctx"] by simp
  next
    case (Some e)
    then show ?thesis using eq check_axis_None [of ?r "axis_attr ctx"] by auto
  qed
  have c2: "axis_attr ctx = [] \<longrightarrow> InferShape ctx = Inl (InvalidArgument [])"
    using eq by simp
  have c3: "(\<exists>a\<in>set (axis_attr ctx). a \<ge> ?r \<or> a < - ?r)
            \<longrightarrow> (\<exists>a b. InferShape ctx = Inl (OutOfRange a b))"
  proof
    assume bad: "\<exists>a\<in>set (axis_attr ctx). a \<ge> ?r \<or> a < - ?r"
    then have ne: "axis_attr ctx \<noteq> []" by auto
    from bad have "check_axis ?r (axis_attr ctx) \<noteq> None"
      using check_axis_None [of ?r "axis_attr ctx"] by auto
    then obtain e where e: "check_axis ?r (axis_attr ctx) = Some e" by auto
    then obtain a b where "e = OutOfRange a b" using check_axis_Some by blast
    with e ne eq show "\<exists>a b. InferShape ctx = Inl (OutOfRange a b)" by simp
  qed
  have c4: "\<forall>a. - ?r \<le> a \<and> a < ?r \<longrightarrow>
            (\<exists>ctx'. InferShape (ctx\<lparr>axis_attr := [a, a]\<rparr>) = Inr ctx')"
  proof (intro allI impI)
    fix a assume "- ?r \<le> a \<and> a < ?r"
    then show "\<exists>ctx'. InferShape (ctx\<lparr>axis_attr := [a, a]\<rparr>) = Inr ctx'"
      using InferShape_dense [of "ctx\<lparr>axis_attr := [a, a]\<rparr>" x out] assms nl by simp
  qed
  from c1 c2 c3 c4 show ?thesis by blast
qed

text \<open>
  The theorem on a tensor of shape \<open>[2, 3]\<close>: a duplicate, negative entries, the empty attribute and entries out of range on either side.
\<close>

theorem InferShape_dense_axis_witness:
  "(\<exists>ctx'. InferShape (example_ctx LOD_TENSOR [2, 3] [1, 1] False) = Inr ctx')
   \<and> (\<exists>ctx'. InferShape (example_ctx LOD_TENSOR [2, 3] [-2, 0] False) = Inr ctx')
   \<and> InferShape (example_ctx LOD_TENSOR [2, 3] [] False) = Inl (InvalidArgument [])
   \<and> (\<exists>a b. InferShape (example_ctx LOD_TENSOR [2, 3] [2] False) = Inl (OutOfRange a b))
   \<and> (\<exists>a b. InferShape (example_ctx LOD_TENSOR [2, 3] [0, -3] False) = Inl (OutOfRange a b))"
  using InferShape_dense_axis [of "example_ctx LOD_TENSOR [2, 3] [1, 1] False"
      "\<lparr>var_type = LOD_TENSOR, data_type = FP32, dims = [2, 3]\<rparr>"
      "\<lparr>var_type = LOD_TENSOR, data_type = FP32, dims = []\<rparr>"]
    InferShape_dense_axis [of "example_ctx LOD_TENSOR [2, 3] [-2, 0] False"
      "\<lparr>var_type = LOD_TENSOR, data_type = FP32, dims = [2, 3]\<rparr>"
      "\<lparr>var_type = LOD_TENSOR, data_type = FP32, dims = []\<rparr>"]
    InferShape_dense_axis [of "example_ctx LOD_TENSOR [2, 3] [] False"
      "\<lparr>var_type = LOD_TENSOR, data_type = FP32, dims = [2, 3]\<rparr>"
      "\<lparr>var_type = LOD_TENSOR, data_type = FP32, dims = []\<rparr>"]
    InferShape_dense_axis [of "example_ctx LOD_TENSOR [2, 3] [2] False"
      "\<lparr>var_type = LOD_TENSOR, data_type = FP32, dims = [2, 3]\<rparr>"
      "\<lparr>var_type = LOD_TENSOR, data_type = FP32, dims = []\<rparr>"]
    InferShape_dense_axis [of "example_ctx LOD_TENSOR [2, 3] [0, -3] False"
      "\<lparr>var_type = LOD_TENSOR, data_type = FP32, dims = [2, 3]\<rparr>"
      "\<lparr>var_type = LOD_TENSOR, data_type = FP32, dims = []\<rparr>"]
  by (simp add: example_ctx_def)

subsection \<open>The axis attribute of a tensor list\<close>

text \<open>
  Claim C2. For a tensor list \<open>X\<close> (with \<open>X\<close> and \<open>Out\<close> bound), the validator fails
  with \<open>InvalidArgument\<close>, citing the size, when the axis attribute does not have exactly
  one entry; it fails with \<open>InvalidArgument\<close>, citing the entry, when the single entry is
  not \<open>0\<close>; and it accepts exactly the attribute \<open>[0]\<close>.
\<close>

theorem InferShape_list_axis:
  assumes "inputs ctx ''X'' = Some x" and "var_type x = LOD_TENSOR_ARRAY"
    and "outputs ctx ''Out'' = Some out"
  shows "(length (axis_attr ctx) \<noteq> 1 \<longrightarrow>
            InferShape ctx = Inl (InvalidArgument [int (length (axis_attr ctx))]))
       \<and> (\<forall>a. axis_attr ctx = [a] \<and> a \<noteq> 0 \<longrightarrow> InferShape ctx = Inl (InvalidArgument [a]))
       \<and> ((\<exists>ctx'. InferShape ctx = Inr ctx') \<longleftrightarrow> axis_attr ctx = [0])"
proof -
  note eq = InferShape_list [OF assms]
  have c1: "length (axis_attr ctx) \<noteq> 1 \<longrightarrow>
            InferShape ctx = Inl (InvalidArgument [int (length (axis_attr ctx))])"
    using eq by simp
  have c2: "\<forall>a. axis_attr ctx = [a] \<and> a \<noteq> 0 \<longrightarrow> InferShape ctx = Inl (InvalidArgument [a])"
    using eq by simp
  have c3: "(\<exists>ctx'. InferShape ctx = Inr ctx') \<longleftrightarrow> axis_attr ctx = [0]"
  proof (cases "axis_attr ctx")
    case Nil
    then show ?thesis using eq by simp
  next
    case (Cons a as)
    then show ?thesis using eq by (cases as) auto
  qed
  from c1 c2 c3 show ?thesis by blast
qed

text \<open>
  The theorem at the attributes \<open>[0, 0]\<close>, \<open>[1]\<close> and \<open>[0]\<close>.
\<close>

theorem InferShape_list_axis_witness:
  "InferShape (example_ctx LOD_TENSOR_ARRAY [3] [0, 0] True) = Inl (InvalidArgument [2])
   \<and> InferShape (example_ctx LOD_TENSOR_ARRAY [3] [1] True) = Inl (InvalidArgument [1])
   \<and> (\<exists>ctx'. InferShape (example_ctx LOD_TENSOR_ARRAY [3] [0] True) = Inr ctx')"
  using InferShape_list_axis [of "example_ctx LOD_TENSOR_ARRAY [3] [0, 0] True"
      "\<lparr>var_type = LOD_TENSOR_ARRAY, data_type = FP32, dims = [3]\<rparr>"
      "\<lparr>var_type = LOD_TENSOR_ARRAY, data_type = FP32, dims = []\<rparr>"]
    InferShape_list_axis [of "example_ctx LOD_TENSOR_ARRAY [3] [1] True"
      "\<lparr>var_type = LOD_TENSOR_ARRAY, data_type = FP32, dims = [3]\<rparr>"
      "\<lparr>var_type = LOD_TENSOR_ARRAY, data_type = FP32, dims = []\<rparr>"]
    InferShape_list_axis [of "example_ctx LOD_TENSOR_ARRAY [3] [0] True"
      "\<lparr>var_type = LOD_TENSOR_ARRAY, data_type = FP32, dims = [3]\<rparr>"
      "\<lparr>var_type = LOD_TENSOR_ARRAY, data_type = FP32, dims = []\<rparr>"]
  by (simp add: example_ctx_def)

subsection \<open>The output shape\<close>

text \<open>
  Claim C3. When validation succeeds, for a dense tensor the resulting context is the
  given one with the shape of \<open>Out\<close> set to the shape of \<open>X\<close>; for a tensor list the
  same holds at graph-build time, and at runtime the context is returned unchanged (no
  shape is set).
\<close>

theorem InferShape_output_shape:
  assumes "inputs ctx ''X'' = Some x" and "InferShape ctx = Inr ctx'"
  shows "\<exists>out. outputs ctx ''Out'' = Some out \<and>
      (var_type x = LOD_TENSOR \<longrightarrow>
         ctx' = ctx\<lparr>outputs := (outputs ctx)(''Out'' \<mapsto> out\<lparr>dims := dims x\<rparr>)\<rparr>) \<and>
      (var_type x = LOD_TENSOR_ARRAY \<and> \<not> IsRuntime ctx \<longrightarrow>
         ctx' = ctx\<lparr>outputs := (outputs ctx)(''Out'' \<mapsto> out\<lparr>dims := dims x\<rparr>)\<rparr>) \<and>
      (var_type x = LOD_TENSOR_ARRAY \<and> IsRuntime ctx \<longrightarrow> ctx' = ctx)"
proof -
  from assms obtain out where out: "outputs ctx ''Out'' = Some out"
    by (cases "outputs ctx ''Out''") (auto simp: InferShape_def HasInput_def HasOutput_def)
  have d: "var_type x = LOD_TENSOR \<longrightarrow>
         ctx' = ctx\<lparr>outputs := (outputs ctx)(''Out'' \<mapsto> out\<lparr>dims := dims x\<rparr>)\<rparr>"
  proof
    assume "var_type x = LOD_TENSOR"
    then have "var_type x \<noteq> LOD_TENSOR_ARRAY" by simp
    from InferShape_dense [OF assms(1) this out] assms(2) out
    show "ctx' = ctx\<lparr>outputs := (outputs ctx)(''Out'' \<mapsto> out\<lparr>dims := dims x\<rparr>)\<rparr>"
      by (auto simp: SetOutputDim_def split: if_splits option.splits)
  qed
  have l: "var_type x = LOD_TENSOR_ARRAY \<Longrightarrow> InferShape ctx =
      (if \<not> IsRuntime ctx then Inr (SetOutputDim ctx ''Out'' (dims x)) else Inr ctx)"
    using InferShape_list [OF assms(1) _ out] assms(2) by (auto split: if_splits)
  have b: "var_type x = LOD_TENSOR_ARRAY \<and> \<not> IsRuntime ctx \<longrightarrow>
         ctx' = ctx\<lparr>outputs := (outputs ctx)(''Out'' \<mapsto> out\<lparr>dims := dims x\<rparr>)\<rparr>"
    using l assms(2) out by (auto simp: SetOutputDim_def)
  have r: "var_type x = LOD_TENSOR_ARRAY \<and> IsRuntime ctx \<longrightarrow> ctx' = ctx"
    using l assms(2) by auto
  from out d b r show ?thesis by blast
qed

text \<open>
  The theorem on a dense tensor, and on a tensor list at build time and at runtime.
\<close>

theorem InferShape_output_shape_witness:
  "InferShape (example_ctx LOD_TENSOR [2, 3] [0] True) =
     Inr ((example_ctx LOD_TENSOR [2, 3] [0] True)\<lparr>outputs :=
        [''Out'' \<mapsto> \<lparr>var_type = LOD_TENSOR, data_type = FP32, dims = [2, 3]\<rparr>]\<rparr>)
   \<and> InferShape (example_ctx LOD_TENSOR_ARRAY [-1, 3] [0] False) =
     Inr ((example_ctx LOD_TENSOR_ARRAY [-1, 3] [0] False)\<lparr>outputs :=
        [''Out'' \<mapsto> \<lparr>var_type = LOD_TENSOR_ARRAY, data_type = FP32, dims = [-1, 3]\<rparr>]\<rparr>)
   \<and> InferShape (example_ctx LOD_TENSOR_ARRAY [-1, 3] [0] True) =
     Inr (example_ctx LOD_TENSOR_ARRAY [-1, 3] [0] True)"
proof -
  have a: "InferShape (example_ctx LOD_TENSOR [2, 3] [0] True) =
     Inr (SetOutputDim (example_ctx LOD_TENSOR [2, 3] [0] True) ''Out'' [2, 3])"
    by (simp add: InferShape_def HasInput_def HasOutput_def example_ctx_def Let_def)
  have b: "InferShape (example_ctx LOD_TENSOR_ARRAY [-1, 3] [0] False) =
     Inr (SetOutputDim (example_ctx LOD_TENSOR_ARRAY [-1, 3] [0] False) ''Out'' [-1, 3])"
    by (simp add: InferShape_def HasInput_def HasOutput_def example_ctx_def Let_def)
  have c: "InferShape (example_ctx LOD_TENSOR_ARRAY [-1, 3] [0] True) =
     Inr (example_ctx LOD_TENSOR_ARRAY [-1, 3] [0] True)"
    by (simp add: InferShape_def HasInput_def HasOutput_def example_ctx_def Let_def)
  show ?thesis
    using InferShape_output_shape [OF _ a, of "\<lparr>var_type = LOD_TENSOR, data_type = FP32, dims = [2, 3]\<rparr>"]
      InferShape_output_shape [OF _ b, of "\<lparr>var_type = LOD_TENSOR_ARRAY, data_type = FP32, dims = [-1, 3]\<rparr>"]
      InferShape_output_shape [OF _ c, of "\<lparr>var_type = LOD_TENSOR_ARRAY, data_type = FP32, dims = [-1, 3]\<rparr>"]
      a b c
    by (simp add: example_ctx_def)
qed

subsection \<open>Dense tensors of rank 0\<close>

text \<open>
  Claim C10. For a dense tensor of rank 0 the validator fails for every axis
  attribute: with \<open>Out\<close> bound, an empty attribute fails with \<open>InvalidArgument\<close>, and a
  non-empty one fails with \<open>OutOfRange\<close> at its first entry \<open>a\<close>, since \<open>a < 0\<close> and
  \<open>a \<ge> 0\<close> cannot both hold.
\<close>

theorem InferShape_rank0_rejected:
  assumes "inputs ctx ''X'' = Some x" and "var_type x = LOD_TENSOR" and "dims x = []"
  shows "(\<exists>e. InferShape ctx = Inl e)
       \<and> (outputs ctx ''Out'' \<noteq> None \<and> axis_attr ctx = [] \<longrightarrow>
            InferShape ctx = Inl (InvalidArgument []))
       \<and> (\<forall>a as. outputs ctx ''Out'' \<noteq> None \<and> axis_attr ctx = a # as \<longrightarrow>
            InferShape ctx = Inl (OutOfRange a 0))"
proof (cases "outputs ctx ''Out''")
  case None
  then show ?thesis using assms by (simp add: InferShape_def HasInput_def HasOutput_def)
next
  case (Some out)
  have nl: "var_type x \<noteq> LOD_TENSOR_ARRAY" using assms(2) by simp
  note eq = InferShape_dense [OF assms(1) nl Some]
  show ?thesis
  proof (cases "axis_attr ctx")
    case Nil
    then show ?thesis using eq by simp
  next
    case (Cons a as)
    then show ?thesis using eq assms(3) by simp
  qed
qed

text \<open>
  The theorem at the attributes \<open>[]\<close>, \<open>[0]\<close> and \<open>[-1, 0]\<close>.
\<close>

theorem InferShape_rank0_rejected_witness:
  "InferShape (example_ctx LOD_TENSOR [] [] False) = Inl (InvalidArgument [])
   \<and> InferShape (example_ctx LOD_TENSOR [] [0] False) = Inl (OutOfRange 0 0)
   \<and> InferShape (example_ctx LOD_TENSOR [] [-1, 0] False) = Inl (OutOfRange (-1) 0)"
  using InferShape_rank0_rejected [of "example_ctx LOD_TENSOR [] [] False"
      "\<lparr>var_type = LOD_TENSOR, data_type = FP32, dims = []\<rparr>"]
    InferShape_rank0_rejected [of "example_ctx LOD_TENSOR [] [0] False"
      "\<lparr>var_type = LOD_TENSOR, data_type = FP32, dims = []\<rparr>"]
    InferShape_rank0_rejected [of "example_ctx LOD_TENSOR [] [-1, 0] False"
      "\<lparr>var_type = LOD_TENSOR, data_type = FP32, dims = []\<rparr>"]
  by (simp add: example_ctx_def)

subsection \<open>Variable-type inference\<close>

text \<open>
  Claim C5. With \<open>X\<close> and \<open>Out\<close> bound, the variable-type inferencer succeeds and
  returns the given context with the variant kind and the dtype of \<open>Out\<close> replaced by
  those of \<open>X\<close>: the inputs, every other output and the other fields of \<open>Out\<close> are as
  before.
\<close>

theorem VarTypeInference_copies:
  assumes "vt_inputs ctx ''X'' = Some x" and "vt_outputs ctx ''Out'' = Some out"
  shows "ReverseOpVarTypeInference ctx =
    Some (ctx\<lparr>vt_outputs := (vt_outputs ctx)(''Out'' \<mapsto>
            out\<lparr>var_type := var_type x, data_type := data_type x\<rparr>)\<rparr>)"
  using assms
  by (simp add: ReverseOpVarTypeInference_def GetInputType_def GetInputDataType_def
      SetOutputType_def SetOutputDataType_def)

text \<open>
  The theorem at a context whose \<open>Out\<close> differs from \<open>X\<close> in kind, dtype and shape.
\<close>

theorem VarTypeInference_copies_witness:
  "ReverseOpVarTypeInference
     \<lparr>vt_inputs = [''X'' \<mapsto> \<lparr>var_type = LOD_TENSOR_ARRAY, data_type = INT64, dims = [4]\<rparr>],
      vt_outputs = [''Out'' \<mapsto> \<lparr>var_type = LOD_TENSOR, data_type = FP32, dims = [7]\<rparr>]\<rparr>
   = Some
     \<lparr>vt_inputs = [''X'' \<mapsto> \<lparr>var_type = LOD_TENSOR_ARRAY, data_type = INT64, dims = [4]\<rparr>],
      vt_outputs = [''Out'' \<mapsto> \<lparr>var_type = LOD_TENSOR_ARRAY, data_type = INT64, dims = [7]\<rparr>]\<rparr>"
  using VarTypeInference_copies
    [of "\<lparr>vt_inputs = [''X'' \<mapsto> \<lparr>var_type = LOD_TENSOR_ARRAY, data_type = INT64, dims = [4]\<rparr>],
      vt_outputs = [''Out'' \<mapsto> \<lparr>var_type = LOD_TENSOR, data_type = FP32, dims = [7]\<rparr>]\<rparr>"
     "\<lparr>var_type = LOD_TENSOR_ARRAY, data_type = INT64, dims = [4]\<rparr>"
     "\<lparr>var_type = LOD_TENSOR, data_type = FP32, dims = [7]\<rparr>"]
  by simp

subsection \<open>The gradient node\<close>

text \<open>
  Claim C4. The gradient builder emits exactly one node; its type is \<open>reverse\<close>, its
  input \<open>X\<close> is the gradient of the forward output \<open>Out\<close>, its output \<open>Out\<close> is the
  gradient slot of the forward input \<open>X\<close>, and its \<open>axis\<close> attribute is the forward
  \<open>axis\<close> attribute. \<open>Apply\<close> sets these four on whatever node it is given.
\<close>

theorem GradMaker_node:
  "(\<exists>g. SingleGradOpMaker this = [g]
        \<and> op_type g = ''reverse''
        \<and> op_inputs g ''X'' = Some (OutputGrad this ''Out'')
        \<and> op_outputs g ''Out'' = Some (InputGrad this ''X'')
        \<and> op_attrs g ''axis'' = Some (GetAttr this ''axis''))
   \<and> op_type (Apply this grad_op) = ''reverse''
   \<and> op_inputs (Apply this grad_op) ''X'' = Some (OutputGrad this ''Out'')
   \<and> op_outputs (Apply this grad_op) ''Out'' = Some (InputGrad this ''X'')
   \<and> op_attrs (Apply this grad_op) ''axis'' = Some (GetAttr this ''axis'')"
  by (simp add: SingleGradOpMaker_def Apply_def SetType_def SetInput_def SetOutput_def
      SetAttr_def Let_def)

text \<open>
  The node built for a forward operator with \<open>axis = [0, 2]\<close>.
\<close>

theorem GradMaker_node_witness:
  "SingleGradOpMaker \<lparr>OutputGrad = (\<lambda>n. [n @ ''@GRAD'']), InputGrad = (\<lambda>n. [n @ ''@GRAD'']),
       GetAttr = (\<lambda>n. [0, 2])\<rparr> =
     [\<lparr>op_type = ''reverse'', op_inputs = [''X'' \<mapsto> [''Out@GRAD'']],
       op_outputs = [''Out'' \<mapsto> [''X@GRAD'']], op_attrs = [''axis'' \<mapsto> [0, 2]]\<rparr>]"
  using GradMaker_node [of "\<lparr>OutputGrad = (\<lambda>n. [n @ ''@GRAD'']), InputGrad = (\<lambda>n. [n @ ''@GRAD'']),
       GetAttr = (\<lambda>n. [0, 2])\<rparr>" empty_op]
  by (simp add: SingleGradOpMaker_def Apply_def SetType_def SetInput_def SetOutput_def
      SetAttr_def empty_op_def)

subsection \<open>Index tuples and flat offsets\<close>

lemma numel_pos_of_in_bounds: "in_bounds ds ix \<Longrightarrow> 0 < numel ds"
  by (induction ds ix rule: in_bounds.induct) auto

lemma offset_of_less: "in_bounds ds ix \<Longrightarrow> offset_of ds ix < numel ds"
proof (induction ds ix rule: in_bounds.induct)
  case (2 d ds i ix)
  then have i: "i < d" and o: "offset_of ds ix < numel ds" by auto
  have "i * numel ds + offset_of ds ix < i * numel ds + numel ds" using o by simp
  also have "\<dots> = Suc i * numel ds" by simp
  also have "\<dots> \<le> d * numel ds" using i by (intro mult_le_mono1) simp
  finally show ?case by simp
qed auto

lemma index_of_offset_of: "in_bounds ds ix \<Longrightarrow> index_of ds (offset_of ds ix) = ix"
proof (induction ds ix rule: in_bounds.induct)
  case (2 d ds i ix)
  then have o: "offset_of ds ix < numel ds" by (auto intro: offset_of_less)
  then show ?case using 2 by simp
qed auto

lemma in_bounds_index_of: "j < numel ds \<Longrightarrow> in_bounds ds (index_of ds j)"
proof (induction ds arbitrary: j)
  case (Cons d ds)
  then have pos: "0 < numel ds" by (cases "numel ds") auto
  from Cons.prems have "j div numel ds < d"
    by (simp add: less_mult_imp_div_less)
  moreover have "j mod numel ds < numel ds" using pos by simp
  ultimately show ?case using Cons.IH by simp
qed simp

lemma offset_of_index_of: "j < numel ds \<Longrightarrow> offset_of ds (index_of ds j) = j"
proof (induction ds arbitrary: j)
  case (Cons d ds)
  then have pos: "0 < numel ds" by (cases "numel ds") auto
  then have "j mod numel ds < numel ds" by simp
  then show ?case using Cons.IH by simp
qed simp

lemma in_bounds_flip_from: "in_bounds ds ix \<Longrightarrow> in_bounds ds (flip_from A k ds ix)"
  by (induction ds ix arbitrary: k rule: in_bounds.induct) auto

lemma flip_from_compose:
  "in_bounds ds ix \<Longrightarrow>
     flip_from B k ds (flip_from A k ds ix) = flip_from ((A - B) \<union> (B - A)) k ds ix"
  by (induction ds ix arbitrary: k rule: in_bounds.induct) auto

lemma flip_from_empty: "in_bounds ds ix \<Longrightarrow> flip_from {} k ds ix = ix"
  by (induction ds ix arbitrary: k rule: in_bounds.induct) auto

lemma data_ReverseKernel:
  "data (ReverseKernel x axis) =
     map (\<lambda>j. data x ! offset_of (t_dims x)
                 (flip (axis_set (length (t_dims x)) axis) (t_dims x) (index_of (t_dims x) j)))
       [0..<numel (t_dims x)]"
  by (simp add: ReverseKernel_def Let_def)

lemma t_dims_ReverseKernel: "t_dims (ReverseKernel x axis) = t_dims x"
  by (simp add: ReverseKernel_def Let_def)

lemma lod_ReverseKernel: "lod (ReverseKernel x axis) = lod x"
  by (simp add: ReverseKernel_def Let_def)

lemma ReverseKernel_at:
  assumes "in_bounds (t_dims x) ix"
  shows "data (ReverseKernel x axis) !
           offset_of (t_dims x) (flip (axis_set (length (t_dims x)) axis) (t_dims x) ix)
         = data x ! offset_of (t_dims x) ix"
proof -
  let ?A = "axis_set (length (t_dims x)) axis"
  let ?ds = "t_dims x"
  have fb: "in_bounds ?ds (flip ?A ?ds ix)"
    using assms by (simp add: flip_def in_bounds_flip_from)
  then have lt: "offset_of ?ds (flip ?A ?ds ix) < numel ?ds" by (rule offset_of_less)
  have "flip ?A ?ds (flip ?A ?ds ix) = ix"
    using assms by (simp add: flip_def flip_from_compose flip_from_empty)
  then show ?thesis
    using lt fb by (simp add: data_ReverseKernel index_of_offset_of)
qed

lemma ReverseKernel_twice:
  "data (ReverseKernel (ReverseKernel x A) B) =
     map (\<lambda>j. data x ! offset_of (t_dims x)
            (flip ((axis_set (length (t_dims x)) B - axis_set (length (t_dims x)) A) \<union>
                   (axis_set (length (t_dims x)) A - axis_set (length (t_dims x)) B))
               (t_dims x) (index_of (t_dims x) j)))
       [0..<numel (t_dims x)]"
proof -
  let ?ds = "t_dims x"
  let ?SA = "axis_set (length ?ds) A"
  let ?SB = "axis_set (length ?ds) B"
  have "data (ReverseKernel (ReverseKernel x A) B) =
      map (\<lambda>j. data (ReverseKernel x A) ! offset_of ?ds (flip ?SB ?ds (index_of ?ds j)))
        [0..<numel ?ds]"
    by (simp add: data_ReverseKernel [of "ReverseKernel x A"] t_dims_ReverseKernel)
  also have "\<dots> = map (\<lambda>j. data x ! offset_of ?ds
        (flip ((?SB - ?SA) \<union> (?SA - ?SB)) ?ds (index_of ?ds j))) [0..<numel ?ds]"
  proof (rule map_cong [OF refl])
    fix j assume "j \<in> set [0..<numel ?ds]"
    then have j: "j < numel ?ds" by simp
    then have ib: "in_bounds ?ds (index_of ?ds j)" by (rule in_bounds_index_of)
    then have fb: "in_bounds ?ds (flip ?SB ?ds (index_of ?ds j))"
      by (simp add: flip_def in_bounds_flip_from)
    then have lt: "offset_of ?ds (flip ?SB ?ds (index_of ?ds j)) < numel ?ds"
      by (rule offset_of_less)
    have "data (ReverseKernel x A) ! offset_of ?ds (flip ?SB ?ds (index_of ?ds j))
        = data x ! offset_of ?ds (flip ?SA ?ds (flip ?SB ?ds (index_of ?ds j)))"
      using lt fb by (simp add: data_ReverseKernel [of x A] index_of_offset_of)
    also have "flip ?SA ?ds (flip ?SB ?ds (index_of ?ds j))
        = flip ((?SB - ?SA) \<union> (?SA - ?SB)) ?ds (index_of ?ds j)"
      using ib by (simp add: flip_def flip_from_compose)
    finally show "data (ReverseKernel x A) ! offset_of ?ds (flip ?SB ?ds (index_of ?ds j))
        = data x ! offset_of ?ds (flip ((?SB - ?SA) \<union> (?SA - ?SB)) ?ds (index_of ?ds j))" .
  qed
  finally show ?thesis .
qed

lemma ReverseKernel_involution:
  assumes "well_typed x"
  shows "ReverseKernel (ReverseKernel x axis) axis = x"
proof -
  let ?ds = "t_dims x"
  have "data (ReverseKernel (ReverseKernel x axis) axis) =
      map (\<lambda>j. data x ! offset_of ?ds (flip {} ?ds (index_of ?ds j))) [0..<numel ?ds]"
    by (simp add: ReverseKernel_twice)
  also have "\<dots> = map (\<lambda>j. data x ! j) [0..<numel ?ds]"
    by (rule map_cong [OF refl])
      (simp add: flip_def flip_from_empty in_bounds_index_of offset_of_index_of)
  also have "\<dots> = data x"
    using assms map_nth [of "data x"] by (simp add: well_typed_def)
  finally have "data (ReverseKernel (ReverseKernel x axis) axis) = data x" .
  then show ?thesis
    by (simp add: ReverseKernel_def Let_def)
qed

lemma more_ReverseKernel: "LoDTensor.more (ReverseKernel x axis) = LoDTensor.more x"
  by (simp add: ReverseKernel_def Let_def)

lemma length_flip_from: "in_bounds ds ix \<Longrightarrow> length (flip_from A k ds ix) = length ds"
  by (induction ds ix arbitrary: k rule: in_bounds.induct) auto

lemma flip_from_nth:
  "in_bounds ds ix \<Longrightarrow> n < length ds \<Longrightarrow>
     flip_from A k ds ix ! n = (if int (k + n) \<in> A then ds ! n - 1 - ix ! n else ix ! n)"
proof (induction ds ix arbitrary: k n rule: in_bounds.induct)
  case (2 d ds i ix)
  show ?case
  proof (cases n)
    case 0
    then show ?thesis by simp
  next
    case (Suc m)
    have "int (Suc k + m) = int (k + Suc m)" by simp
    then show ?thesis using Suc "2.prems" "2.IH" [of m "Suc k"] by (simp del: of_nat_add of_nat_Suc)
  qed
qed auto

lemma axis_set_nonneg: "\<forall>a\<in>set A. 0 \<le> a \<Longrightarrow> axis_set rank A = set A"
  by (induction A) (auto simp: axis_set_def normalize_axis_def)

lemma set_symmetric_difference:
  "set (symmetric_difference A B) = (set A - set B) \<union> (set B - set A)"
  by (auto simp: symmetric_difference_def)

subsection \<open>What the kernel computes\<close>

text \<open>
  Claim C7. Let \<open>A\<close> be the set of the entries of \<open>axis\<close>, each normalized via
  \<open>a < 0 ? a + rank : a\<close>. For every index tuple \<open>i\<close> of the input, the tuple \<open>i'\<close> with
  \<open>i'\<^sub>k = extent\<^sub>k - 1 - i\<^sub>k\<close> for \<open>k \<in> A\<close> and \<open>i'\<^sub>k = i\<^sub>k\<close> otherwise is such that
  the output at \<open>i'\<close> equals the input at \<open>i\<close>; the per-row length metadata and the shape
  are those of the input. On the tensor of shape \<open>[2, 2, 4]\<close> with contents
  \<open>1, \<dots>, 16\<close> and \<open>axis = [0, 2]\<close> the output is
  \<open>[[[12,11,10,9],[16,15,14,13]],[[4,3,2,1],[8,7,6,5]]]\<close>, as the operator's documentation
  says.
\<close>

theorem ReverseKernel_semantics:
  "(\<forall>ix. in_bounds (t_dims x) ix \<longrightarrow>
      length (flip (axis_set (length (t_dims x)) axis) (t_dims x) ix) = length (t_dims x)
      \<and> (\<forall>k < length (t_dims x).
           flip (axis_set (length (t_dims x)) axis) (t_dims x) ix ! k =
             (if int k \<in> set (map (\<lambda>a. if a < 0 then a + int (length (t_dims x)) else a) axis)
              then t_dims x ! k - 1 - ix ! k else ix ! k))
      \<and> data (ReverseKernel x axis) !
           offset_of (t_dims x) (flip (axis_set (length (t_dims x)) axis) (t_dims x) ix)
         = data x ! offset_of (t_dims x) ix)
   \<and> lod (ReverseKernel x axis) = lod x
   \<and> t_dims (ReverseKernel x axis) = t_dims x
   \<and> ReverseKernel example_tensor [0, 2] = example_tensor\<lparr>data :=
        [12, 11, 10, 9, 16, 15, 14, 13, 4, 3, 2, 1, 8, 7, 6, 5]\<rparr>"
proof -
  let ?ds = "t_dims x"
  let ?A = "axis_set (length ?ds) axis"
  have A: "?A = set (map (\<lambda>a. if a < 0 then a + int (length ?ds) else a) axis)"
    by (simp add: axis_set_def normalize_axis_def [abs_def])
  have ix: "\<forall>ix. in_bounds ?ds ix \<longrightarrow>
      length (flip ?A ?ds ix) = length ?ds
      \<and> (\<forall>k < length ?ds. flip ?A ?ds ix ! k =
             (if int k \<in> ?A then ?ds ! k - 1 - ix ! k else ix ! k))
      \<and> data (ReverseKernel x axis) ! offset_of ?ds (flip ?A ?ds ix)
         = data x ! offset_of ?ds ix"
    using ReverseKernel_at [of x _ axis]
    by (simp add: flip_def length_flip_from flip_from_nth)
  have ex: "ReverseKernel example_tensor [0, 2] = example_tensor\<lparr>data :=
        [12, 11, 10, 9, 16, 15, 14, 13, 4, 3, 2, 1, 8, 7, 6, 5]\<rparr>"
    by code_simp
  show ?thesis
    using ix ex unfolding A [symmetric]
    by (simp only: lod_ReverseKernel t_dims_ReverseKernel simp_thms)
qed

text \<open>
  The theorem at the index \<open>[1, 0, 3]\<close> of the documented example: it is flipped to \<open>[0, 0, 0]\<close>, and the output there is the input's element \<open>12\<close>.
\<close>

theorem ReverseKernel_semantics_witness:
  "in_bounds (t_dims example_tensor) [1, 0, 3]
   \<and> flip (axis_set 3 [0, 2]) [2, 2, 4] [1, 0, 3] = [0, 0, 0]
   \<and> data (ReverseKernel example_tensor [0, 2]) ! 0 = data example_tensor ! 11
   \<and> data example_tensor ! 11 = 12
   \<and> lod (ReverseKernel example_tensor [0, 2]) = []"
  using ReverseKernel_semantics [of example_tensor "[0, 2]", THEN conjunct1, THEN spec,
      of "[1, 0, 3]"]
    ReverseKernel_semantics [of example_tensor "[0, 2]", THEN conjunct2, THEN conjunct1]
  by (simp add: example_tensor_def flip_def axis_set_def normalize_axis_def)

text \<open>
  Claim C6. For a well-typed dense tensor \<open>X\<close> (its buffer has as many elements as its
  shape says) and an axis attribute that the validator accepts for \<open>X\<close>, reversing twice
  with that attribute gives \<open>X\<close> back.
\<close>

theorem ReverseKernel_involution_valid:
  assumes "well_typed x" and "inputs ctx ''X'' = Some xv" and "var_type xv = LOD_TENSOR"
    and "dims xv = map int (t_dims x)" and "InferShape ctx = Inr ctx'"
  shows "ReverseKernel (ReverseKernel x (axis_attr ctx)) (axis_attr ctx) = x"
  using assms(1) by (rule ReverseKernel_involution)

text \<open>
  The theorem on the documented example with \<open>axis = [0, 2]\<close>, which the validator accepts.
\<close>

theorem ReverseKernel_involution_valid_witness:
  "well_typed example_tensor
   \<and> InferShape (example_ctx LOD_TENSOR [2, 2, 4] [0, 2] True) =
       Inr (SetOutputDim (example_ctx LOD_TENSOR [2, 2, 4] [0, 2] True) ''Out'' [2, 2, 4])
   \<and> ReverseKernel (ReverseKernel example_tensor [0, 2]) [0, 2] = example_tensor"
proof -
  have w: "well_typed example_tensor"
    by (simp add: well_typed_def example_tensor_def)
  have i: "inputs (example_ctx LOD_TENSOR [2, 2, 4] [0, 2] True) ''X'' =
      Some \<lparr>var_type = LOD_TENSOR, data_type = FP32, dims = [2, 2, 4]\<rparr>"
    by (simp add: example_ctx_def)
  have d: "dims \<lparr>var_type = LOD_TENSOR, data_type = FP32, dims = [2, 2, 4]\<rparr> =
      map int (t_dims example_tensor)"
    by (simp add: example_tensor_def)
  have v: "InferShape (example_ctx LOD_TENSOR [2, 2, 4] [0, 2] True) =
       Inr (SetOutputDim (example_ctx LOD_TENSOR [2, 2, 4] [0, 2] True) ''Out'' [2, 2, 4])"
    by (simp add: InferShape_def HasInput_def HasOutput_def example_ctx_def Let_def)
  have "ReverseKernel (ReverseKernel example_tensor
          (axis_attr (example_ctx LOD_TENSOR [2, 2, 4] [0, 2] True)))
          (axis_attr (example_ctx LOD_TENSOR [2, 2, 4] [0, 2] True)) = example_tensor"
    using w i _ d v by (rule ReverseKernel_involution_valid) simp
  then show ?thesis using w v by (simp add: example_ctx_def)
qed

text \<open>
  Claim C8. For a dense tensor \<open>X\<close> and disjoint axis lists \<open>A\<close> and \<open>B\<close> with entries
  in \<open>{0, \<dots>, rank - 1}\<close>, reversing with \<open>A\<close> and then with \<open>B\<close> equals reversing once
  with the symmetric difference of \<open>A\<close> and \<open>B\<close>.
\<close>

theorem ReverseKernel_disjoint_compose:
  assumes "set A \<subseteq> {0..<int (length (t_dims x))}" and "set B \<subseteq> {0..<int (length (t_dims x))}"
    and "set A \<inter> set B = {}"
  shows "ReverseKernel (ReverseKernel x A) B = ReverseKernel x (symmetric_difference A B)"
proof -
  let ?r = "length (t_dims x)"
  have a: "axis_set ?r A = set A" using assms(1) by (intro axis_set_nonneg) auto
  have b: "axis_set ?r B = set B" using assms(2) by (intro axis_set_nonneg) auto
  have "\<forall>a\<in>set (symmetric_difference A B). 0 \<le> a"
    using assms(1,2) by (auto simp: set_symmetric_difference)
  then have c: "axis_set ?r (symmetric_difference A B) = (set B - set A) \<union> (set A - set B)"
    by (simp add: axis_set_nonneg set_symmetric_difference Un_commute)
  have "data (ReverseKernel x (symmetric_difference A B)) =
      map (\<lambda>j. data x ! offset_of (t_dims x)
             (flip ((set B - set A) \<union> (set A - set B)) (t_dims x) (index_of (t_dims x) j)))
        [0..<numel (t_dims x)]"
    by (simp only: data_ReverseKernel c)
  moreover have "data (ReverseKernel (ReverseKernel x A) B) =
      map (\<lambda>j. data x ! offset_of (t_dims x)
             (flip ((set B - set A) \<union> (set A - set B)) (t_dims x) (index_of (t_dims x) j)))
        [0..<numel (t_dims x)]"
    by (simp only: ReverseKernel_twice a b)
  ultimately have "data (ReverseKernel (ReverseKernel x A) B) =
      data (ReverseKernel x (symmetric_difference A B))"
    by simp
  then show ?thesis
    by (intro LoDTensor.equality)
      (simp_all add: t_dims_ReverseKernel lod_ReverseKernel more_ReverseKernel)
qed

text \<open>
  The theorem on the documented example with \<open>A = [0]\<close> and \<open>B = [2]\<close>.
\<close>

theorem ReverseKernel_disjoint_compose_witness:
  "set [0] \<subseteq> {0..<int (length (t_dims example_tensor))}
   \<and> set [2] \<subseteq> {0..<int (length (t_dims example_tensor))}
   \<and> set [0::int] \<inter> set [2] = {}
   \<and> symmetric_difference [0] [2] = [0, 2]
   \<and> ReverseKernel (ReverseKernel example_tensor [0]) [2] = ReverseKernel example_tensor [0, 2]"
  using ReverseKernel_disjoint_compose [of "[0]" example_tensor "[2]"]
  by (simp add: example_tensor_def symmetric_difference_def)

end
